theory Spec2Isabelle
  imports Main "HOL-Library.Sublist" "HOL-Library.List_Lexorder" "HOL-Library.Char_ord"
    "HOL-Library.AList"
begin

section \<open>Errors of the option parser\<close>

text \<open>
  The exception classes of \<^verbatim>\<open>cleo/parser/errors.py\<close>, together with the Python
  built-in exceptions that the parser code can raise. \<open>OptionError\<close> and
  \<open>OptionConflictError\<close> carry the message and the \<open>option_id\<close> (the option rendered
  by \<open>__str__\<close>); \<open>AmbiguousOptionError\<close> carries the option string and the list of
  possibilities; \<open>SystemExit\<close> carries the exit status and the text written to the error
  stream before the process terminates.
\<close>

datatype py_error =
    OptionError string string
  | OptionConflictError string string
  | OptionValueError string
  | BadOptionError string
  | AmbiguousOptionError string "string list"
  | ValueError string
  | TypeError string
  | KeyError string
  | AttributeError string
  | IndexError
  | NameError string
  | AssertionError string
  | SystemExit int string

section \<open>Python values and strings\<close>

text \<open>
  The values that option actions store. A float is kept as the exact decimal
  \<open>Dec m e\<close> (standing for \<open>m * 10 ^ e\<close>), an infinity with its sign, or NaN; the rounding
  to a binary double is not modelled. Strings are lists of 8-bit characters.
\<close>

datatype pyfloat = Dec int int | Infty bool | NaN

datatype pyval =
    VNone
  | VBool bool
  | VInt int
  | VStr string
  | VFloat pyfloat
  | VComplex pyfloat pyfloat
  | VList "pyval list"
  | VTuple "pyval list"

text \<open>\<^verbatim>\<open>sep.join(xs)\<close>.\<close>

fun join :: "string \<Rightarrow> string list \<Rightarrow> string" where
  "join sep [] = []"
| "join sep [x] = x"
| "join sep (x # y # ys) = x @ sep @ join sep (y # ys)"

text \<open>
  \<^verbatim>\<open>repr\<close> of a string (the \<^verbatim>\<open>!r\<close> conversion of an f-string): single quotes, unless the
  string holds a single quote and no double quote; the quote character and the backslash
  are escaped, control characters are written as escapes.
\<close>

definition hex_digit :: "nat \<Rightarrow> char" where
  "hex_digit n = ''0123456789abcdef'' ! n"

definition repr_char :: "char \<Rightarrow> char \<Rightarrow> string" where
  "repr_char q c =
     (if c = q \<or> c = CHR 0x5C then [CHR 0x5C, c]
      else if c = CHR 0x09 then [CHR 0x5C, CHR ''t'']
      else if c = CHR 0x0A then [CHR 0x5C, CHR ''n'']
      else if c = CHR 0x0D then [CHR 0x5C, CHR ''r'']
      else if of_char c < (32::nat) \<or> of_char c = (127::nat)
        then [CHR 0x5C, CHR ''x'', hex_digit (of_char c div 16), hex_digit (of_char c mod 16)]
      else [c])"

definition repr_str :: "string \<Rightarrow> string" where
  "repr_str s =
     (let q = (if CHR 0x27 \<in> set s \<and> CHR 0x22 \<notin> set s then CHR 0x22 else CHR 0x27)
      in [q] @ concat (map (repr_char q) s) @ [q])"

text \<open>Decimal rendering of an integer (\<^verbatim>\<open>{nargs:d}\<close>).\<close>

fun str_nat :: "nat \<Rightarrow> string" where
  "str_nat n =
     (if n < 10 then [''0123456789'' ! n]
      else str_nat (n div 10) @ [''0123456789'' ! (n mod 10)])"

declare str_nat.simps [simp del]

definition str_int :: "int \<Rightarrow> string" where
  "str_int i = (if i < 0 then CHR ''-'' # str_nat (nat (- i)) else str_nat (nat i))"

text \<open>
  \<^verbatim>\<open>s.replace(old, new)\<close>: occurrences are replaced from the left without overlap; an
  empty \<open>old\<close> matches before every character and at the end.
\<close>

function str_replace :: "string \<Rightarrow> string \<Rightarrow> string \<Rightarrow> string" where
  "str_replace old new s =
     (if old = [] then new @ concat (map (\<lambda>c. c # new) s)
      else if s = [] then []
      else if prefix old s then new @ str_replace old new (drop (length old) s)
      else hd s # str_replace old new (tl s))"
  by pat_completeness auto
termination
  by (relation "measure (\<lambda>(old, new, s). length s)") auto

declare str_replace.simps [simp del]

text \<open>\<^verbatim>\<open>s.lower()\<close> and \<^verbatim>\<open>s.upper()\<close> on ASCII letters.\<close>

definition lower_char :: "char \<Rightarrow> char" where
  "lower_char c =
     (if (65::nat) \<le> of_char c \<and> of_char c \<le> (90::nat) then char_of (of_char c + (32::nat)) else c)"

definition upper_char :: "char \<Rightarrow> char" where
  "upper_char c =
     (if (97::nat) \<le> of_char c \<and> of_char c \<le> (122::nat) then char_of (of_char c - (32::nat)) else c)"

definition lower :: "string \<Rightarrow> string" where
  "lower s = map lower_char s"

definition upper :: "string \<Rightarrow> string" where
  "upper s = map upper_char s"

text \<open>
  \<^verbatim>\<open>arg.split("=", 1)\<close> when \<^verbatim>\<open>"=" in arg\<close>: the text before the first \<open>=\<close> and the text
  after it.
\<close>

definition split_eq :: "string \<Rightarrow> string \<times> string" where
  "split_eq arg = (takeWhile (\<lambda>c. c \<noteq> CHR ''='') arg, tl (dropWhile (\<lambda>c. c \<noteq> CHR ''='') arg))"

text \<open>
  A slice \<^verbatim>\<open>xs[0:n]\<close> and the deletion \<^verbatim>\<open>del xs[0:n]\<close>; a negative \<open>n\<close> counts from the
  end of the list.
\<close>

definition slice_to :: "'a list \<Rightarrow> int \<Rightarrow> 'a list" where
  "slice_to xs n = (if 0 \<le> n then take (nat n) xs else take (length xs - nat (- n)) xs)"

definition del_slice_to :: "'a list \<Rightarrow> int \<Rightarrow> 'a list" where
  "del_slice_to xs n = (if 0 \<le> n then drop (nat n) xs else drop (length xs - nat (- n)) xs)"

text \<open>
  Dictionaries are association lists in insertion order: \<^verbatim>\<open>d[k] = v\<close> is
  \<^const>\<open>AList.update\<close> (in place for a present key, at the end for a new one),
  \<^verbatim>\<open>d.get(k)\<close> is \<^const>\<open>map_of\<close>; \<^verbatim>\<open>del d[k]\<close> raises \<open>KeyError\<close> for an absent key, and
  \<^verbatim>\<open>xs.remove(x)\<close> raises \<open>ValueError\<close> for an absent element.
\<close>

definition dict_del :: "string \<Rightarrow> (string \<times> 'v) list \<Rightarrow> py_error + (string \<times> 'v) list" where
  "dict_del k d =
     (if k \<in> set (map fst d) then Inr (AList.delete k d) else Inl (KeyError (repr_str k)))"

definition list_remove :: "'a \<Rightarrow> 'a list \<Rightarrow> py_error + 'a list" where
  "list_remove x xs =
     (if x \<in> set xs then Inr (remove1 x xs) else Inl (ValueError ''list.remove(x): x not in list''))"

text \<open>Sequencing of computations that may raise.\<close>

definition ebind :: "'e + 'a \<Rightarrow> ('a \<Rightarrow> 'e + 'b) \<Rightarrow> 'e + 'b" where
  "ebind m f = (case m of Inl e \<Rightarrow> Inl e | Inr x \<Rightarrow> f x)"

lemma ebind_Inl [simp]: "ebind (Inl e) f = Inl e"
  by (simp add: ebind_def)

lemma ebind_Inr [simp]: "ebind (Inr x) f = f x"
  by (simp add: ebind_def)

section \<open>Options\<close>

text \<open>
  The state that \<^verbatim>\<open>parse_args\<close> keeps while it runs: \<open>rargs\<close> (the remaining tokens),
  \<open>largs\<close> (the leftover tokens collected so far) and the attribute dictionary of the
  \<^verbatim>\<open>Values\<close> object. A callback receives the option string and the converted value, its
  \<^verbatim>\<open>callback_args\<close> and \<^verbatim>\<open>callback_kwargs\<close>, and may change all three or raise.
\<close>

record pstate =
  rargs :: "string list"
  largs :: "string list"
  values_dict :: "(string \<times> pyval) list"

type_synonym callback_t =
  "string \<Rightarrow> pyval \<Rightarrow> pyval list \<Rightarrow> (string \<times> pyval) list \<Rightarrow> pstate \<Rightarrow> py_error + pstate"

text \<open>
  An option belongs to the parser itself or to one of its groups, named by its position in
  \<^verbatim>\<open>option_groups\<close>.
\<close>

datatype cid = CParser | CGroup nat

text \<open>
  The attributes of an \<^verbatim>\<open>Option\<close> object. \<open>None\<close> stands for Python's \<^verbatim>\<open>None\<close>, except
  in \<open>default_value\<close>, where \<open>None\<close> is \<^verbatim>\<open>NO_DEFAULT\<close> and \<open>Some VNone\<close> is a default of
  \<^verbatim>\<open>None\<close>; \<open>container\<close> is \<open>None\<close> until \<^verbatim>\<open>add_option\<close> sets the attribute. Actions and
  types are the strings of the source.
\<close>

record option_t =
  short_opts :: "string list"
  long_opts :: "string list"
  action :: "string option"
  type_name :: "string option"
  dest :: "string option"
  default_value :: "pyval option"
  nargs :: "int option"
  const :: pyval
  choices :: "string list option"
  callback :: "callback_t option"
  callback_args :: "pyval list option"
  callback_kwargs :: "(string \<times> pyval) list option"
  help_text :: "string option"
  metavar :: "string option"
  container :: "cid option"

definition ACTIONS :: "string list" where
  "ACTIONS = [''store'', ''store_const'', ''store_true'', ''store_false'', ''append'',
     ''append_const'', ''count'', ''callback'', ''help'', ''version'']"

definition STORE_ACTIONS :: "string list" where
  "STORE_ACTIONS = [''store'', ''store_const'', ''store_true'', ''store_false'', ''append'',
     ''append_const'', ''count'']"

definition TYPED_ACTIONS :: "string list" where
  "TYPED_ACTIONS = [''store'', ''append'', ''callback'']"

definition ALWAYS_TYPED_ACTIONS :: "string list" where
  "ALWAYS_TYPED_ACTIONS = [''store'', ''append'']"

definition CONST_ACTIONS :: "string list" where
  "CONST_ACTIONS = [''store_const'', ''append_const'']"

definition TYPES :: "string list" where
  "TYPES = [''string'', ''int'', ''long'', ''float'', ''complex'', ''choice'']"

text \<open>\<^verbatim>\<open>Option.__str__\<close>, the \<open>option_id\<close> of an \<open>OptionError\<close>.\<close>

definition option_str :: "option_t \<Rightarrow> string" where
  "option_str opt = join ''/'' (short_opts opt @ long_opts opt)"

definition repr_opt_str :: "string option \<Rightarrow> string" where
  "repr_opt_str x = (case x of None \<Rightarrow> ''None'' | Some s \<Rightarrow> repr_str s)"

text \<open>
  \<^verbatim>\<open>Option._check_opt_strings\<close>: empty entries are dropped (as \<^verbatim>\<open>None\<close> entries are).
\<close>

definition check_opt_strings :: "string list \<Rightarrow> py_error + string list" where
  "check_opt_strings opts =
     (let opts' = filter (\<lambda>opt. opt \<noteq> []) opts
      in if opts' = [] then Inl (TypeError ''at least one option string must be supplied'')
         else Inr opts')"

text \<open>
  \<^verbatim>\<open>Option._set_opt_strings\<close>: the loop over the option strings; \<open>self\<close> holds the two
  lists built so far.
\<close>

fun set_opt_strings :: "string list \<Rightarrow> option_t \<Rightarrow> py_error + option_t" where
  "set_opt_strings [] self = Inr self"
| "set_opt_strings (opt # opts) self =
     (if length opt < 2 then
        Inl (OptionError (''invalid option string '' @ repr_str opt @
               '': must be at least two characters long'') (option_str self))
      else if length opt = 2 then
        (if \<not> (opt ! 0 = CHR ''-'' \<and> opt ! 1 \<noteq> CHR ''-'') then
           Inl (OptionError (''invalid short option string '' @ repr_str opt @
                  '': must be of the form -x, (x any non-dash char)'') (option_str self))
         else set_opt_strings opts (self\<lparr>short_opts := short_opts self @ [opt]\<rparr>))
      else
        (if \<not> (take 2 opt = ''--'' \<and> opt ! 2 \<noteq> CHR ''-'') then
           Inl (OptionError (''invalid long option string '' @ repr_str opt @
                  '': must start with --, followed by non-dash'') (option_str self))
         else set_opt_strings opts (self\<lparr>long_opts := long_opts self @ [opt]\<rparr>)))"

definition check_action :: "option_t \<Rightarrow> py_error + option_t" where
  "check_action self =
     (case action self of
        None \<Rightarrow> Inr (self\<lparr>action := Some ''store''\<rparr>)
      | Some a \<Rightarrow>
          if a \<notin> set ACTIONS then
            Inl (OptionError (''invalid action: '' @ repr_str a) (option_str self))
          else Inr self)"

text \<open>
  \<^verbatim>\<open>Option._check_type\<close>. A type is given by its name; the branch for a type object
  (replaced by its \<^verbatim>\<open>__name__\<close>) has no counterpart here.
\<close>

definition check_type :: "option_t \<Rightarrow> py_error + option_t" where
  "check_type self =
     (case type_name self of
        None \<Rightarrow>
          if the (action self) \<in> set ALWAYS_TYPED_ACTIONS then
            (if choices self \<noteq> None then Inr (self\<lparr>type_name := Some ''choice''\<rparr>)
             else Inr (self\<lparr>type_name := Some ''string''\<rparr>))
          else Inr self
      | Some t0 \<Rightarrow>
          let t = (if t0 = ''str'' then ''string'' else t0); self = self\<lparr>type_name := Some t\<rparr>
          in if t \<notin> set TYPES then
               Inl (OptionError (''invalid option type: '' @ repr_str t) (option_str self))
             else if the (action self) \<notin> set TYPED_ACTIONS then
               Inl (OptionError (''must not supply a type for action '' @
                      repr_str (the (action self))) (option_str self))
             else Inr self)"

definition check_choice :: "option_t \<Rightarrow> py_error + option_t" where
  "check_choice self =
     (if type_name self = Some ''choice'' then
        (if choices self = None then
           Inl (OptionError (''must supply a list of choices for type '' @ repr_str ''choice'')
                  (option_str self))
         else Inr self)
      else if choices self \<noteq> None then
        Inl (OptionError (''must not supply choices for type '' @ repr_opt_str (type_name self))
               (option_str self))
      else Inr self)"

definition check_dest :: "option_t \<Rightarrow> py_error + option_t" where
  "check_dest self =
     (let takes_value = (the (action self) \<in> set STORE_ACTIONS \<or> type_name self \<noteq> None)
      in if dest self = None \<and> takes_value then
           (if long_opts self \<noteq> [] then
              Inr (self\<lparr>dest := Some (str_replace ''-'' ''_'' (drop 2 (hd (long_opts self))))\<rparr>)
            else if short_opts self = [] then Inl IndexError
            else Inr (self\<lparr>dest := Some [hd (short_opts self) ! 1]\<rparr>))
         else Inr self)"

definition check_const :: "option_t \<Rightarrow> py_error + option_t" where
  "check_const self =
     (if the (action self) \<notin> set CONST_ACTIONS \<and> const self \<noteq> VNone then
        Inl (OptionError (repr_str ''const'' @ '' must not be supplied for action '' @
               repr_str (the (action self))) (option_str self))
      else Inr self)"

definition check_nargs :: "option_t \<Rightarrow> py_error + option_t" where
  "check_nargs self =
     (if the (action self) \<in> set TYPED_ACTIONS then
        (if nargs self = None then Inr (self\<lparr>nargs := Some 1\<rparr>) else Inr self)
      else if nargs self \<noteq> None then
        Inl (OptionError (repr_str ''nargs'' @ '' must not be supplied for action '' @
               repr_str (the (action self))) (option_str self))
      else Inr self)"

text \<open>
  \<^verbatim>\<open>Option._check_callback\<close>. A callback that is present is callable, and
  \<open>callback_args\<close> and \<open>callback_kwargs\<close> have the types the source checks for; the
  \<^verbatim>\<open>repr\<close> of a function in the message is not modelled.
\<close>

definition check_callback :: "option_t \<Rightarrow> py_error + option_t" where
  "check_callback self =
     (if action self = Some ''callback'' then
        (if callback self = None then
           Inl (OptionError ''callback not callable: None'' (option_str self))
         else Inr self)
      else if callback self \<noteq> None then
        Inl (OptionError ''callback supplied (<function>) for non-callback option''
               (option_str self))
      else if callback_args self \<noteq> None then
        Inl (OptionError ''callback_args supplied for non-callback option'' (option_str self))
      else if callback_kwargs self \<noteq> None then
        Inl (OptionError ''callback_kwargs supplied for non-callback option'' (option_str self))
      else Inr self)"

text \<open>
  The keyword arguments of the constructor that were not supplied: every attribute is
  \<^verbatim>\<open>None\<close>, the default is \<^verbatim>\<open>NO_DEFAULT\<close>.
\<close>

definition no_attrs :: option_t where
  "no_attrs = \<lparr>short_opts = [], long_opts = [], action = None, type_name = None, dest = None,
     default_value = None, nargs = None, const = VNone, choices = None, callback = None,
     callback_args = None, callback_kwargs = None, help_text = None, metavar = None,
     container = None\<rparr>"

text \<open>
  \<^verbatim>\<open>Option.__init__(*opts, **attrs)\<close>: the option strings are set, the attributes are taken
  from \<open>attrs\<close>, and the \<^verbatim>\<open>CHECK_METHODS\<close> run in their order. The keyword arguments are
  the fields of \<open>attrs\<close>, so a keyword outside \<^verbatim>\<open>ATTRS\<close> cannot be written.
\<close>

definition Option_init :: "string list \<Rightarrow> option_t \<Rightarrow> py_error + option_t" where
  "Option_init opts attrs =
     ebind (check_opt_strings opts) (\<lambda>opts.
     ebind (set_opt_strings opts no_attrs) (\<lambda>self0.
     ebind (check_action (attrs\<lparr>short_opts := short_opts self0, long_opts := long_opts self0,
                                 container := None\<rparr>)) (\<lambda>self.
     ebind (check_type self) (\<lambda>self.
     ebind (check_choice self) (\<lambda>self.
     ebind (check_dest self) (\<lambda>self.
     ebind (check_const self) (\<lambda>self.
     ebind (check_nargs self) check_callback)))))))"

text \<open>\<^verbatim>\<open>Option.takes_value\<close> and \<^verbatim>\<open>Option.get_opt_string\<close>.\<close>

definition takes_value :: "option_t \<Rightarrow> bool" where
  "takes_value self = (type_name self \<noteq> None)"

definition get_opt_string :: "option_t \<Rightarrow> py_error + string" where
  "get_opt_string self =
     (if long_opts self \<noteq> [] then Inr (hd (long_opts self))
      else if short_opts self \<noteq> [] then Inr (hd (short_opts self))
      else Inl IndexError)"

section \<open>Help formatters: construction, headings and usage\<close>

datatype formatter_class = IndentedHelpFormatter | TitledHelpFormatter

text \<open>
  The attributes of a \<^verbatim>\<open>HelpFormatter\<close>. \<open>has_parser\<close> tells whether \<^verbatim>\<open>set_parser\<close> has
  run (the attribute \<^verbatim>\<open>parser\<close> is not \<^verbatim>\<open>None\<close>); \<open>short_first\<close> is an integer or
  \<^verbatim>\<open>None\<close> and is read for its truth value; the two format strings
  \<^verbatim>\<open>_short_opt_fmt\<close> and \<^verbatim>\<open>_long_opt_fmt\<close> are kept as their delimiters; the dictionary
  \<^verbatim>\<open>option_strings\<close> is keyed by the address of the option.
\<close>

record formatter =
  formatter_class :: formatter_class
  has_parser :: bool
  indent_increment :: int
  width :: int
  help_position :: int
  max_help_position :: int
  current_indent :: int
  level :: int
  help_width :: "int option"
  short_first :: "int option"
  default_tag :: string
  option_strings :: "(nat \<times> string) list"
  short_opt_delim :: string
  long_opt_delim :: string

text \<open>
  \<^verbatim>\<open>HelpFormatter.__init__(self, indent_increment, max_help_position, short_first,
  width=None)\<close>. The attribute \<^verbatim>\<open>width\<close> is the constant 180; the argument \<open>width_arg\<close>
  enters the help position only, and \<^verbatim>\<open>None - 20\<close> is a \<open>TypeError\<close>.
\<close>

definition HelpFormatter_init ::
  "formatter_class \<Rightarrow> int \<Rightarrow> int \<Rightarrow> int option \<Rightarrow> int option \<Rightarrow> py_error + formatter" where
  "HelpFormatter_init cls indent_increment_arg max_help_position_arg short_first_arg width_arg =
     (case width_arg of
        None \<Rightarrow> Inl (TypeError ''unsupported operand type(s) for -: NoneType and int'')
      | Some w \<Rightarrow>
          let pos = min max_help_position_arg (max (w - 20) (indent_increment_arg * 2))
          in Inr \<lparr>formatter_class = cls, has_parser = False,
                   indent_increment = indent_increment_arg, width = 180,
                   help_position = pos, max_help_position = pos, current_indent = 0,
                   level = 0, help_width = None, short_first = short_first_arg,
                   default_tag = ''%default'', option_strings = [],
                   short_opt_delim = '' '', long_opt_delim = ''=''\<rparr>)"

text \<open>
  The two subclasses call \<^verbatim>\<open>super().__init__(indent_increment, max_help_position, width,
  short_first)\<close>: their \<open>width\<close> arrives as the base class's third parameter
  \<open>short_first\<close>, their \<open>short_first\<close> as its fourth parameter \<open>width\<close>.
\<close>

definition IndentedHelpFormatter_init ::
  "int \<Rightarrow> int \<Rightarrow> int option \<Rightarrow> int \<Rightarrow> py_error + formatter" where
  "IndentedHelpFormatter_init indent_increment_arg max_help_position_arg width_arg short_first_arg =
     HelpFormatter_init IndentedHelpFormatter indent_increment_arg max_help_position_arg
       width_arg (Some short_first_arg)"

definition TitledHelpFormatter_init ::
  "int \<Rightarrow> int \<Rightarrow> int option \<Rightarrow> int \<Rightarrow> py_error + formatter" where
  "TitledHelpFormatter_init indent_increment_arg max_help_position_arg width_arg short_first_arg =
     HelpFormatter_init TitledHelpFormatter indent_increment_arg max_help_position_arg
       width_arg (Some short_first_arg)"

text \<open>The constructors with their default arguments.\<close>

definition IndentedHelpFormatter_default :: "py_error + formatter" where
  "IndentedHelpFormatter_default = IndentedHelpFormatter_init 2 24 None 1"

definition TitledHelpFormatter_default :: "py_error + formatter" where
  "TitledHelpFormatter_default = TitledHelpFormatter_init 0 24 None 0"

definition indent :: "formatter \<Rightarrow> formatter" where
  "indent f = f\<lparr>current_indent := current_indent f + indent_increment f, level := level f + 1\<rparr>"

text \<open>\<^verbatim>\<open>dedent\<close>; the assertion is kept as a failure.\<close>

definition dedent :: "formatter \<Rightarrow> py_error + formatter" where
  "dedent f =
     (let f = f\<lparr>current_indent := current_indent f - indent_increment f\<rparr>
      in if \<not> current_indent f \<ge> 0 then Inl (AssertionError ''Indent decreased below 0.'')
         else Inr (f\<lparr>level := level f - 1\<rparr>))"

text \<open>\<^verbatim>\<open>"%*s" % (n, "")\<close>: the empty string padded to \<open>|n|\<close> columns.\<close>

definition pad :: "int \<Rightarrow> string" where
  "pad n = replicate (nat \<bar>n\<bar>) CHR '' ''"

text \<open>
  \<^verbatim>\<open>format_heading\<close> and \<^verbatim>\<open>format_usage\<close> of the two subclasses; \<^verbatim>\<open>"=-"[level]\<close> raises
  \<open>IndexError\<close> outside \<open>-2 .. 1\<close>.
\<close>

definition format_heading :: "formatter \<Rightarrow> string \<Rightarrow> py_error + string" where
  "format_heading f heading =
     (case formatter_class f of
        IndentedHelpFormatter \<Rightarrow> Inr (pad (current_indent f) @ heading @ '':'' @ [CHR 0x0A])
      | TitledHelpFormatter \<Rightarrow>
          if level f = 0 \<or> level f = - 2 then
            Inr (heading @ [CHR 0x0A] @ replicate (length heading) CHR ''='' @ [CHR 0x0A])
          else if level f = 1 \<or> level f = - 1 then
            Inr (heading @ [CHR 0x0A] @ replicate (length heading) CHR ''-'' @ [CHR 0x0A])
          else Inl IndexError)"

definition format_usage :: "formatter \<Rightarrow> string \<Rightarrow> py_error + string" where
  "format_usage f usage_text =
     (case formatter_class f of
        IndentedHelpFormatter \<Rightarrow> Inr (''Usage: '' @ usage_text @ [CHR 0x0A])
      | TitledHelpFormatter \<Rightarrow>
          ebind (format_heading f ''Usage'') (\<lambda>h. Inr (h @ ''  '' @ usage_text @ [CHR 0x0A])))"

section \<open>Containers: the parser and its groups\<close>

text \<open>
  An \<^verbatim>\<open>OptionGroup\<close> object: its own option list, title, description and conflict
  handler. The three dictionaries it shares with its parser are those of the parser
  record.
\<close>

record group =
  title :: string
  group_description :: "string option"
  group_option_list :: "nat list"
  group_conflict_handler :: string

text \<open>
  An \<^verbatim>\<open>OptionParser\<close> with everything it reaches: \<open>heap\<close> holds the \<^verbatim>\<open>Option\<close> objects, the
  address of an object being its position, \<open>groups\<close> holds the \<^verbatim>\<open>OptionGroup\<close>
  objects created for this parser, and \<open>option_groups\<close> lists the groups that were
  added to it. The dictionaries \<^verbatim>\<open>_short_opt\<close> and \<^verbatim>\<open>_long_opt\<close> map an option string to the
  address of its option.
\<close>

record parser =
  heap :: "option_t list"
  groups :: "group list"
  short_opt :: "(string \<times> nat) list"
  long_opt :: "(string \<times> nat) list"
  defaults :: "(string \<times> pyval) list"
  option_list :: "nat list"
  option_groups :: "nat list"
  conflict_handler :: string
  description :: "string option"
  usage :: "string option"
  prog :: "string option"
  version :: "string option"
  allow_interspersed_args :: bool
  process_default_values :: bool
  formatter :: formatter
  epilog :: "string option"

text \<open>The option list and the conflict handler of a container, and the update of the list.\<close>

definition list_of :: "cid \<Rightarrow> parser \<Rightarrow> nat list" where
  "list_of c p =
     (case c of CParser \<Rightarrow> option_list p | CGroup g \<Rightarrow> group_option_list (groups p ! g))"

definition set_list :: "cid \<Rightarrow> nat list \<Rightarrow> parser \<Rightarrow> parser" where
  "set_list c xs p =
     (case c of
        CParser \<Rightarrow> p\<lparr>option_list := xs\<rparr>
      | CGroup g \<Rightarrow> p\<lparr>groups := (groups p)[g := (groups p ! g)\<lparr>group_option_list := xs\<rparr>]\<rparr>)"

definition handler_of :: "cid \<Rightarrow> parser \<Rightarrow> string" where
  "handler_of c p =
     (case c of CParser \<Rightarrow> conflict_handler p | CGroup g \<Rightarrow> group_conflict_handler (groups p ! g))"

definition valid_cid :: "cid \<Rightarrow> parser \<Rightarrow> bool" where
  "valid_cid c p = (case c of CParser \<Rightarrow> True | CGroup g \<Rightarrow> g < length (groups p))"

definition set_option :: "nat \<Rightarrow> option_t \<Rightarrow> parser \<Rightarrow> parser" where
  "set_option i opt p = p\<lparr>heap := (heap p)[i := opt]\<rparr>"

text \<open>
  \<^verbatim>\<open>OptionContainer._check_conflict\<close>: the list \<open>conflict_opts\<close>, and the loop of the
  \<^verbatim>\<open>resolve\<close> handler over it. The conflicting option is read from the heap in every
  iteration, so it is seen as the iterations before left it.
\<close>

definition conflict_opts :: "parser \<Rightarrow> option_t \<Rightarrow> (string \<times> nat) list" where
  "conflict_opts p opt =
     concat (map (\<lambda>s. case map_of (short_opt p) s of None \<Rightarrow> [] | Some c \<Rightarrow> [(s, c)])
                 (short_opts opt)) @
     concat (map (\<lambda>s. case map_of (long_opt p) s of None \<Rightarrow> [] | Some c \<Rightarrow> [(s, c)])
                 (long_opts opt))"

definition drop_if_empty :: "nat \<Rightarrow> parser \<Rightarrow> py_error + parser" where
  "drop_if_empty c p =
     (if \<not> (short_opts (heap p ! c) \<noteq> [] \<or> long_opts (heap p ! c) \<noteq> []) then
        (case container (heap p ! c) of
           None \<Rightarrow> Inl (AttributeError ''container'')
         | Some cc \<Rightarrow> ebind (list_remove c (list_of cc p)) (\<lambda>xs. Inr (set_list cc xs p)))
      else Inr p)"

fun resolve_conflicts :: "(string \<times> nat) list \<Rightarrow> parser \<Rightarrow> py_error + parser" where
  "resolve_conflicts [] p = Inr p"
| "resolve_conflicts ((opt, c) # rest) p =
     ebind
       (if prefix ''--'' opt then
          ebind (list_remove opt (long_opts (heap p ! c))) (\<lambda>lo.
          ebind (dict_del opt (long_opt p)) (\<lambda>d.
            Inr (set_option c ((heap p ! c)\<lparr>long_opts := lo\<rparr>) p\<lparr>long_opt := d\<rparr>)))
        else
          ebind (list_remove opt (short_opts (heap p ! c))) (\<lambda>so.
          ebind (dict_del opt (short_opt p)) (\<lambda>d.
            Inr (set_option c ((heap p ! c)\<lparr>short_opts := so\<rparr>) p\<lparr>short_opt := d\<rparr>))))
       (\<lambda>p. ebind (drop_if_empty c p) (resolve_conflicts rest))"

definition check_conflict :: "cid \<Rightarrow> nat \<Rightarrow> parser \<Rightarrow> py_error + parser" where
  "check_conflict self i p =
     (let cs = conflict_opts p (heap p ! i)
      in if cs \<noteq> [] then
           (if handler_of self p = ''error'' then
              Inl (OptionConflictError
                     (''conflicting option string(s): '' @ join '', '' (map fst cs))
                     (option_str (heap p ! i)))
            else if handler_of self p = ''resolve'' then resolve_conflicts cs p
            else Inr p)
         else Inr p)"

text \<open>
  \<^verbatim>\<open>OptionContainer.add_option\<close> for an \<^verbatim>\<open>Option\<close> object, given by its address, and for
  option strings with keyword arguments, where the new object gets the next address. The
  result of the second form is the address together with the new state.
\<close>

definition add_defaults :: "option_t \<Rightarrow> (string \<times> pyval) list \<Rightarrow> (string \<times> pyval) list" where
  "add_defaults opt d =
     (case dest opt of
        None \<Rightarrow> d
      | Some k \<Rightarrow>
          (case default_value opt of
             Some v \<Rightarrow> AList.update k v d
           | None \<Rightarrow> if k \<notin> set (map fst d) then AList.update k VNone d else d))"

definition add_option :: "cid \<Rightarrow> nat \<Rightarrow> parser \<Rightarrow> py_error + parser" where
  "add_option self i p =
     ebind (check_conflict self i p) (\<lambda>p.
       let p = set_list self (list_of self p @ [i]) p;
           p = set_option i ((heap p ! i)\<lparr>container := Some self\<rparr>) p;
           p = p\<lparr>short_opt := fold (\<lambda>s d. AList.update s i d) (short_opts (heap p ! i)) (short_opt p)\<rparr>;
           p = p\<lparr>long_opt := fold (\<lambda>s d. AList.update s i d) (long_opts (heap p ! i)) (long_opt p)\<rparr>
       in Inr (p\<lparr>defaults := add_defaults (heap p ! i) (defaults p)\<rparr>))"

definition new_option :: "option_t \<Rightarrow> parser \<Rightarrow> nat \<times> parser" where
  "new_option opt p = (length (heap p), p\<lparr>heap := heap p @ [opt]\<rparr>)"

definition add_option_strs ::
  "cid \<Rightarrow> string list \<Rightarrow> option_t \<Rightarrow> parser \<Rightarrow> py_error + nat \<times> parser" where
  "add_option_strs self opts attrs p =
     (if opts = [] then Inl IndexError
      else ebind (Option_init opts attrs) (\<lambda>opt.
        let (i, p) = new_option opt p
        in ebind (add_option self i p) (\<lambda>p. Inr (i, p))))"

text \<open>\<^verbatim>\<open>OptionContainer.remove_option\<close>.\<close>

fun del_keys :: "string list \<Rightarrow> (string \<times> nat) list \<Rightarrow> py_error + (string \<times> nat) list" where
  "del_keys [] d = Inr d"
| "del_keys (k # ks) d = ebind (dict_del k d) (del_keys ks)"

definition remove_option :: "string \<Rightarrow> parser \<Rightarrow> py_error + parser" where
  "remove_option opt_str p =
     (case (case map_of (short_opt p) opt_str of
              None \<Rightarrow> map_of (long_opt p) opt_str
            | Some i \<Rightarrow> Some i) of
        None \<Rightarrow> Inl (ValueError (''no such option '' @ repr_str opt_str))
      | Some i \<Rightarrow>
          ebind (del_keys (short_opts (heap p ! i)) (short_opt p)) (\<lambda>sd.
          ebind (del_keys (long_opts (heap p ! i)) (long_opt p)) (\<lambda>ld.
          case container (heap p ! i) of
            None \<Rightarrow> Inl (AttributeError ''container'')
          | Some cc \<Rightarrow>
              ebind (list_remove i (list_of cc p)) (\<lambda>xs.
                Inr (set_list cc xs (p\<lparr>short_opt := sd, long_opt := ld\<rparr>))))))"

text \<open>
  \<^verbatim>\<open>OptionGroup.__init__\<close> creates a group object for the parser, with the parser's
  conflict handler at that moment; \<^verbatim>\<open>add_option_group\<close> appends a group to
  \<^verbatim>\<open>option_groups\<close>.
\<close>

definition OptionGroup_init :: "string \<Rightarrow> string option \<Rightarrow> parser \<Rightarrow> nat \<times> parser" where
  "OptionGroup_init title_arg description_arg p =
     (length (groups p),
      p\<lparr>groups := groups p @ [\<lparr>title = title_arg, group_description = description_arg,
           group_option_list = [], group_conflict_handler = conflict_handler p\<rparr>]\<rparr>)"

definition add_option_group :: "nat \<Rightarrow> parser \<Rightarrow> parser" where
  "add_option_group g p = p\<lparr>option_groups := option_groups p @ [g]\<rparr>"

definition set_conflict_handler :: "cid \<Rightarrow> string \<Rightarrow> parser \<Rightarrow> py_error + parser" where
  "set_conflict_handler self handler p =
     (if handler \<notin> {''error'', ''resolve''} then
        Inl (ValueError (''invalid conflict_resolution value '' @ repr_str handler))
      else
        (case self of
           CParser \<Rightarrow> Inr (p\<lparr>conflict_handler := handler\<rparr>)
         | CGroup g \<Rightarrow>
             Inr (p\<lparr>groups := (groups p)[g := (groups p ! g)\<lparr>group_conflict_handler := handler\<rparr>]\<rparr>)))"

text \<open>
  \<^verbatim>\<open>OptionParser.set_usage\<close>; the marker \<^verbatim>\<open>SUPPRESS_USAGE\<close> is recognised by its text.
\<close>

definition set_usage :: "string option \<Rightarrow> string option" where
  "set_usage u =
     (case u of
        None \<Rightarrow> Some ''%prog [options]''
      | Some s \<Rightarrow>
          if s = ''SUPPRESSUSAGE'' then None
          else if prefix ''usage: '' (lower s) then Some (drop 7 s)
          else Some s)"

text \<open>
  \<^verbatim>\<open>OptionParser.__init__\<close> without an initial option list (the class attribute
  \<^verbatim>\<open>standard_option_list\<close> is empty). Without a formatter argument the parser builds a
  \<^verbatim>\<open>TitledHelpFormatter()\<close>.
\<close>

definition OptionParser_init ::
  "string option \<Rightarrow> string option \<Rightarrow> string \<Rightarrow> string option \<Rightarrow> formatter option \<Rightarrow> bool \<Rightarrow>
   string option \<Rightarrow> string option \<Rightarrow> py_error + parser" where
  "OptionParser_init usage_arg version_arg conflict_handler_arg description_arg formatter_arg
       add_help_option prog_arg epilog_arg =
     (if conflict_handler_arg \<notin> {''error'', ''resolve''} then
        Inl (ValueError (''invalid conflict_resolution value '' @ repr_str conflict_handler_arg))
      else
        ebind (case formatter_arg of None \<Rightarrow> TitledHelpFormatter_default | Some f \<Rightarrow> Inr f) (\<lambda>f.
          let p = \<lparr>heap = [], groups = [], short_opt = [],
                   long_opt = [], defaults = [], option_list = [], option_groups = [],
                   conflict_handler = conflict_handler_arg, description = description_arg,
                   usage = set_usage usage_arg, prog = prog_arg, version = version_arg,
                   allow_interspersed_args = True, process_default_values = True,
                   formatter = f\<lparr>has_parser := True\<rparr>, epilog = epilog_arg\<rparr>
          in ebind
               (if version_arg \<noteq> None \<and> version_arg \<noteq> Some [] then
                  ebind (add_option_strs CParser [''--version'']
                           (no_attrs\<lparr>action := Some ''version'',
                              help_text := Some (''show program'' @ [CHR 0x27] @ ''s version number and exit'')\<rparr>) p)
                    (\<lambda>(i, p). Inr p)
                else Inr p)
               (\<lambda>p. if add_help_option then
                      ebind (add_option_strs CParser [''-h'', ''--help'']
                               (no_attrs\<lparr>action := Some ''help'',
                                  help_text := Some ''show this help message and exit''\<rparr>) p)
                        (\<lambda>(i, p). Inr p)
                    else Inr p)))"

section \<open>Conversion of option values\<close>

text \<open>
  Python's \<^verbatim>\<open>int(val, radix)\<close> on a string: surrounding whitespace is dropped, a sign may
  come first, the prefix of the radix (\<^verbatim>\<open>0x\<close>, \<^verbatim>\<open>0o\<close>, \<^verbatim>\<open>0b\<close>) may follow with one
  underscore after it, and then come digits of the radix with single underscores between
  them. \<open>None\<close> is the \<^verbatim>\<open>ValueError\<close>. (The limit on the number of decimal digits is not
  modelled.)
\<close>

definition is_space :: "char \<Rightarrow> bool" where
  "is_space c = ((9::nat) \<le> of_char c \<and> of_char c \<le> (13::nat) \<or>
                 (28::nat) \<le> of_char c \<and> of_char c \<le> (32::nat))"

definition strip :: "string \<Rightarrow> string" where
  "strip s = rev (dropWhile is_space (rev (dropWhile is_space s)))"

definition is_digit :: "char \<Rightarrow> bool" where
  "is_digit c = ((48::nat) \<le> of_char c \<and> of_char c \<le> (57::nat))"

definition digit_val :: "char \<Rightarrow> nat option" where
  "digit_val c =
     (let n = (of_char c :: nat)
      in if 48 \<le> n \<and> n \<le> 57 then Some (n - 48)
         else if 97 \<le> n \<and> n \<le> 122 then Some (n - 87)
         else if 65 \<le> n \<and> n \<le> 90 then Some (n - 55)
         else None)"

fun int_digits :: "nat \<Rightarrow> string \<Rightarrow> nat \<Rightarrow> nat option" where
  "int_digits b [] acc = None"
| "int_digits b (c # cs) acc =
     (case digit_val c of
        None \<Rightarrow> None
      | Some d \<Rightarrow>
          if b \<le> d then None
          else (case cs of
                  [] \<Rightarrow> Some (acc * b + d)
                | c' # cs' \<Rightarrow>
                    if c' = CHR ''_'' then int_digits b cs' (acc * b + d)
                    else int_digits b cs (acc * b + d)))"

definition has_base_prefix :: "nat \<Rightarrow> string \<Rightarrow> bool" where
  "has_base_prefix b s =
     (case s of
        c0 # c1 # _ \<Rightarrow>
          c0 = CHR ''0'' \<and>
          (b = 16 \<and> lower_char c1 = CHR ''x'' \<or> b = 8 \<and> lower_char c1 = CHR ''o'' \<or>
           b = 2 \<and> lower_char c1 = CHR ''b'')
      | _ \<Rightarrow> False)"

definition py_int :: "string \<Rightarrow> nat \<Rightarrow> int option" where
  "py_int s b =
     (let s1 = strip s;
          neg = (take 1 s1 = ''-'');
          s2 = (if take 1 s1 = ''+'' \<or> take 1 s1 = ''-'' then drop 1 s1 else s1);
          s3 = (if has_base_prefix b s2
                then (if take 1 (drop 2 s2) = ''_'' then drop 3 s2 else drop 2 s2)
                else s2)
      in case int_digits b s3 0 of
           None \<Rightarrow> None
         | Some n \<Rightarrow> Some (if neg then - int n else int n))"

text \<open>
  Python's \<^verbatim>\<open>float(val)\<close> and \<^verbatim>\<open>complex(val)\<close> on a string. \<open>scan_float\<close> reads the longest
  prefix that is a decimal floating-point literal (or a signed \<^verbatim>\<open>inf\<close>, \<^verbatim>\<open>infinity\<close> or
  \<^verbatim>\<open>nan\<close>) and returns it with the rest of the string; an exponent mark without digits is
  not part of the literal. Underscores are allowed between digits only and are removed
  first.
\<close>

definition nat_of_digits :: "string \<Rightarrow> nat" where
  "nat_of_digits ds = foldl (\<lambda>acc c. acc * 10 + (of_char c - 48)) 0 ds"

definition scan_exponent :: "string \<Rightarrow> int \<times> string" where
  "scan_exponent s =
     (if take 1 (lower s) = ''e'' then
        (let r = drop 1 s;
             neg = (take 1 r = ''-'');
             r1 = (if take 1 r = ''+'' \<or> take 1 r = ''-'' then drop 1 r else r);
             ds = takeWhile is_digit r1
         in if ds = [] then (0, s)
            else ((if neg then - int (nat_of_digits ds) else int (nat_of_digits ds)),
                  dropWhile is_digit r1))
      else (0, s))"

definition scan_float :: "string \<Rightarrow> (pyfloat \<times> string) option" where
  "scan_float s =
     (let neg = (take 1 s = ''-'');
          s1 = (if take 1 s = ''+'' \<or> take 1 s = ''-'' then drop 1 s else s)
      in if take 8 (lower s1) = ''infinity'' then Some (Infty neg, drop 8 s1)
         else if take 3 (lower s1) = ''inf'' then Some (Infty neg, drop 3 s1)
         else if take 3 (lower s1) = ''nan'' then Some (NaN, drop 3 s1)
         else
           let d1 = takeWhile is_digit s1;
               r1 = dropWhile is_digit s1;
               d2 = (if take 1 r1 = ''.'' then takeWhile is_digit (drop 1 r1) else []);
               r2 = (if take 1 r1 = ''.'' then dropWhile is_digit (drop 1 r1) else r1)
           in if d1 = [] \<and> d2 = [] then None
              else
                let (ex, r3) = scan_exponent r2;
                    m = int (nat_of_digits (d1 @ d2))
                in Some (Dec (if neg then - m else m) (ex - int (length d2)), r3))"

fun underscores_ok :: "char \<Rightarrow> string \<Rightarrow> bool" where
  "underscores_ok prev [] = (prev \<noteq> CHR ''_'')"
| "underscores_ok prev (c # cs) =
     (if c = CHR ''_'' then is_digit prev \<and> underscores_ok c cs
      else (prev = CHR ''_'' \<longrightarrow> is_digit c) \<and> underscores_ok c cs)"

definition without_underscores :: "string \<Rightarrow> string option" where
  "without_underscores s =
     (if CHR ''_'' \<in> set s then
        (if underscores_ok (CHR 0x00) s then Some (filter (\<lambda>c. c \<noteq> CHR ''_'') s) else None)
      else Some s)"

definition py_float :: "string \<Rightarrow> pyfloat option" where
  "py_float s =
     (case without_underscores (strip s) of
        None \<Rightarrow> None
      | Some t \<Rightarrow> (case scan_float t of Some (f, []) \<Rightarrow> Some f | _ \<Rightarrow> None))"

definition complex_body :: "string \<Rightarrow> ((pyfloat \<times> pyfloat) \<times> string) option" where
  "complex_body s =
     (case scan_float s of
        Some (z, r) \<Rightarrow>
          if take 1 r = ''+'' \<or> take 1 r = ''-'' then
            (let (y, r') = (case scan_float r of
                              Some (y, r') \<Rightarrow> (y, r')
                            | None \<Rightarrow> (Dec (if take 1 r = ''+'' then 1 else - 1) 0, drop 1 r))
             in if take 1 (lower r') = ''j'' then Some ((z, y), drop 1 r') else None)
          else if take 1 (lower r) = ''j'' then Some ((Dec 0 0, z), drop 1 r)
          else Some ((z, Dec 0 0), r)
      | None \<Rightarrow>
          let y = Dec (if take 1 s = ''-'' then - 1 else 1) 0;
              r = (if take 1 s = ''+'' \<or> take 1 s = ''-'' then drop 1 s else s)
          in if take 1 (lower r) = ''j'' then Some ((Dec 0 0, y), drop 1 r) else None)"

definition py_complex :: "string \<Rightarrow> (pyfloat \<times> pyfloat) option" where
  "py_complex s =
     (case without_underscores s of
        None \<Rightarrow> None
      | Some t \<Rightarrow>
          let t1 = dropWhile is_space t;
              bracket = (take 1 t1 = ''('');
              t2 = (if bracket then dropWhile is_space (drop 1 t1) else t1)
          in case complex_body t2 of
               None \<Rightarrow> None
             | Some (z, r) \<Rightarrow>
                 let r1 = dropWhile is_space r;
                     r2 = (if bracket then
                             (if take 1 r1 = '')'' then Some (dropWhile is_space (drop 1 r1))
                              else None)
                           else Some r1)
                 in if r2 = Some [] then Some z else None)"

text \<open>\<^verbatim>\<open>_parse_num(val, type_)\<close> and \<^verbatim>\<open>_parse_int(val)\<close>.\<close>

definition parse_num :: "string \<Rightarrow> (string \<Rightarrow> nat \<Rightarrow> 'a) \<Rightarrow> 'a" where
  "parse_num val type_arg =
     (if lower (take 2 val) = ''0x'' then type_arg val 16
      else if lower (take 2 val) = ''0b'' then
        type_arg (if drop 2 val \<noteq> [] then drop 2 val else ''0'') 2
      else if take 1 val = ''0'' then type_arg val 8
      else type_arg val 10)"

definition parse_int :: "string \<Rightarrow> int option" where
  "parse_int val = parse_num val py_int"

text \<open>
  The table \<^verbatim>\<open>_builtin_cvt\<close>: the conversion function and the word for the kind of value.
\<close>

definition builtin_cvt :: "string \<Rightarrow> ((string \<Rightarrow> pyval option) \<times> string) option" where
  "builtin_cvt t =
     (if t = ''int'' then Some (\<lambda>v. map_option VInt (parse_int v), ''integer'')
      else if t = ''long'' then Some (\<lambda>v. map_option VInt (parse_int v), ''integer'')
      else if t = ''float'' then Some (\<lambda>v. map_option VFloat (py_float v), ''floating-point'')
      else if t = ''complex'' then
        Some (\<lambda>v. map_option (\<lambda>(x, y). VComplex x y) (py_complex v), ''complex'')
      else None)"

definition check_builtin :: "option_t \<Rightarrow> string \<Rightarrow> string \<Rightarrow> py_error + pyval" where
  "check_builtin opt_obj opt val =
     (case builtin_cvt (case type_name opt_obj of None \<Rightarrow> [] | Some t \<Rightarrow> t) of
        None \<Rightarrow> Inl (KeyError (repr_opt_str (type_name opt_obj)))
      | Some (cvt, what) \<Rightarrow>
          (case cvt val of
             Some v \<Rightarrow> Inr v
           | None \<Rightarrow>
               Inl (OptionValueError (''option '' @ opt @ '': invalid '' @ what @ '' value: '' @
                      repr_str val))))"

definition check_choice_value :: "option_t \<Rightarrow> string \<Rightarrow> string \<Rightarrow> py_error + pyval" where
  "check_choice_value opt_obj opt val =
     (case choices opt_obj of
        None \<Rightarrow> Inl (TypeError ''argument of type NoneType is not iterable'')
      | Some cs \<Rightarrow>
          if val \<in> set cs then Inr (VStr val)
          else Inl (OptionValueError (''option '' @ opt @ '': invalid choice: '' @ repr_str val @
                      '' (choose from '' @ join '', '' (map repr_str cs) @ '')'')))"

text \<open>\<^verbatim>\<open>Option.check_value\<close> with the table \<^verbatim>\<open>TYPE_CHECKER\<close>.\<close>

definition check_value :: "option_t \<Rightarrow> string \<Rightarrow> string \<Rightarrow> py_error + pyval" where
  "check_value opt_obj opt val =
     (if type_name opt_obj \<in> {Some ''int'', Some ''long'', Some ''float'', Some ''complex''}
        then check_builtin opt_obj opt val
      else if type_name opt_obj = Some ''choice'' then check_choice_value opt_obj opt val
      else Inr (VStr val))"

text \<open>
  The value handed to \<^verbatim>\<open>Option.process\<close>: \<^verbatim>\<open>None\<close>, one token, or a tuple of tokens.
\<close>

datatype raw_value = RNone | RStr string | RTuple "string list"

fun check_values_list :: "option_t \<Rightarrow> string \<Rightarrow> string list \<Rightarrow> py_error + pyval list" where
  "check_values_list opt_obj opt [] = Inr []"
| "check_values_list opt_obj opt (v # vs) =
     ebind (check_value opt_obj opt v) (\<lambda>x.
     ebind (check_values_list opt_obj opt vs) (\<lambda>xs. Inr (x # xs)))"

text \<open>
  \<^verbatim>\<open>Option.convert_value\<close>. The parser passes one token exactly when \<open>nargs\<close> is 1 and a
  tuple otherwise; the loop over a single token runs over its characters, and the
  checker applied to a tuple is left as a \<open>TypeError\<close>.
\<close>

definition convert_value :: "option_t \<Rightarrow> string \<Rightarrow> raw_value \<Rightarrow> py_error + pyval" where
  "convert_value opt_obj opt val =
     (case val of
        RNone \<Rightarrow> Inr VNone
      | RStr s \<Rightarrow>
          if nargs opt_obj = Some 1 then check_value opt_obj opt s
          else ebind (check_values_list opt_obj opt (map (\<lambda>c. [c]) s)) (\<lambda>xs. Inr (VTuple xs))
      | RTuple vs \<Rightarrow>
          if nargs opt_obj = Some 1 then Inl (TypeError ''value is a tuple'')
          else ebind (check_values_list opt_obj opt vs) (\<lambda>xs. Inr (VTuple xs)))"

section \<open>Values and option actions\<close>

text \<open>
  A \<^verbatim>\<open>Values\<close> object is its attribute dictionary. \<^verbatim>\<open>ensure_value\<close> installs the given
  value when the attribute is absent or \<^verbatim>\<open>None\<close>, and returns the attribute with the
  updated dictionary. (A destination that names a method of the class \<^verbatim>\<open>Values\<close> is not
  modelled.)
\<close>

definition setattr :: "string \<Rightarrow> pyval \<Rightarrow> (string \<times> pyval) list \<Rightarrow> (string \<times> pyval) list" where
  "setattr attr v vals = AList.update attr v vals"

definition ensure_value ::
  "string \<Rightarrow> pyval \<Rightarrow> (string \<times> pyval) list \<Rightarrow> pyval \<times> (string \<times> pyval) list" where
  "ensure_value attr v vals =
     (case map_of vals attr of
        None \<Rightarrow> (v, setattr attr v vals)
      | Some VNone \<Rightarrow> (v, setattr attr v vals)
      | Some x \<Rightarrow> (x, vals))"

text \<open>\<^verbatim>\<open>x.append(v)\<close> on the attribute and \<^verbatim>\<open>x + 1\<close>.\<close>

definition py_append :: "pyval \<Rightarrow> pyval \<Rightarrow> py_error + pyval" where
  "py_append x v =
     (case x of VList xs \<Rightarrow> Inr (VList (xs @ [v])) | _ \<Rightarrow> Inl (AttributeError ''append''))"

definition float_add1 :: "pyfloat \<Rightarrow> pyfloat" where
  "float_add1 f =
     (case f of
        Dec m e \<Rightarrow> if 0 \<le> e then Dec (m * 10 ^ nat e + 1) 0 else Dec (m + 10 ^ nat (- e)) e
      | _ \<Rightarrow> f)"

definition py_add1 :: "pyval \<Rightarrow> py_error + pyval" where
  "py_add1 x =
     (case x of
        VInt n \<Rightarrow> Inr (VInt (n + 1))
      | VBool b \<Rightarrow> Inr (VInt ((if b then 1 else 0) + 1))
      | VFloat f \<Rightarrow> Inr (VFloat (float_add1 f))
      | VComplex re im \<Rightarrow> Inr (VComplex (float_add1 re) im)
      | _ \<Rightarrow> Inl (TypeError ''unsupported operand type(s) for +''))"

text \<open>
  \<^verbatim>\<open>Option.take_action\<close>. The \<^verbatim>\<open>help\<close> and \<^verbatim>\<open>version\<close> actions print on standard output
  and leave through \<^verbatim>\<open>parser.exit()\<close>, that is \<^verbatim>\<open>sys.exit(0)\<close> with nothing written to the
  error stream; the printed text is not part of this model.
\<close>

definition take_action :: "option_t \<Rightarrow> string \<Rightarrow> pyval \<Rightarrow> pstate \<Rightarrow> py_error + pstate" where
  "take_action self opt val st =
     (let act = (case action self of None \<Rightarrow> [] | Some a \<Rightarrow> a);
          dst = (case dest self of None \<Rightarrow> [] | Some d \<Rightarrow> d)
      in if act = ''store'' then Inr (st\<lparr>values_dict := setattr dst val (values_dict st)\<rparr>)
         else if act = ''store_const'' then
           Inr (st\<lparr>values_dict := setattr dst (const self) (values_dict st)\<rparr>)
         else if act = ''store_true'' then
           Inr (st\<lparr>values_dict := setattr dst (VBool True) (values_dict st)\<rparr>)
         else if act = ''store_false'' then
           Inr (st\<lparr>values_dict := setattr dst (VBool False) (values_dict st)\<rparr>)
         else if act = ''append'' then
           (let (x, vals) = ensure_value dst (VList []) (values_dict st)
            in ebind (py_append x val) (\<lambda>x'. Inr (st\<lparr>values_dict := setattr dst x' vals\<rparr>)))
         else if act = ''append_const'' then
           (let (x, vals) = ensure_value dst (VList []) (values_dict st)
            in ebind (py_append x (const self)) (\<lambda>x'. Inr (st\<lparr>values_dict := setattr dst x' vals\<rparr>)))
         else if act = ''count'' then
           (let (x, vals) = ensure_value dst (VInt 0) (values_dict st)
            in ebind (py_add1 x) (\<lambda>x'. Inr (st\<lparr>values_dict := setattr dst x' vals\<rparr>)))
         else if act = ''callback'' then
           (case callback self of
              None \<Rightarrow> Inl (TypeError ''NoneType object is not callable'')
            | Some f \<Rightarrow>
                f opt val (case callback_args self of None \<Rightarrow> [] | Some a \<Rightarrow> a)
                  (case callback_kwargs self of None \<Rightarrow> [] | Some k \<Rightarrow> k) st)
         else if act = ''help'' then Inl (SystemExit 0 [])
         else if act = ''version'' then Inl (SystemExit 0 [])
         else Inl (ValueError (''unknown action '' @ repr_opt_str (action self))))"

text \<open>\<^verbatim>\<open>Option.process\<close>.\<close>

definition process :: "option_t \<Rightarrow> string \<Rightarrow> raw_value \<Rightarrow> pstate \<Rightarrow> py_error + pstate" where
  "process self opt val st =
     ebind (convert_value self opt val) (\<lambda>v. take_action self opt v st)"

section \<open>Abbreviation resolution\<close>

text \<open>
  \<^verbatim>\<open>_match_abbrev(s, wordmap)\<close>. The dictionary \<open>wordmap\<close> is an association list in
  insertion order; only its keys are read.
\<close>

definition match_abbrev :: "string \<Rightarrow> (string \<times> 'v) list \<Rightarrow> py_error + string" where
  "match_abbrev s wordmap =
     (if s \<in> set (map fst wordmap) then Inr s
      else let possibilities = filter (\<lambda>word. prefix s word) (map fst wordmap) in
        if length possibilities = 1 then Inr (hd possibilities)
        else if possibilities = [] then Inl (BadOptionError s)
        else Inl (AmbiguousOptionError s (sort possibilities)))"

section \<open>Parsing\<close>

text \<open>
  What the parser reads from the process: the name the program was started under
  (\<^verbatim>\<open>sys.argv[0]\<close>) and its arguments (\<^verbatim>\<open>sys.argv[1:]\<close>).
\<close>

record env =
  argv0 :: string
  argv_rest :: "string list"

definition basename :: "string \<Rightarrow> string" where
  "basename s = rev (takeWhile (\<lambda>c. c \<noteq> CHR ''/'') (rev s))"

definition get_prog_name :: "parser \<Rightarrow> env \<Rightarrow> string" where
  "get_prog_name p e = (case prog p of None \<Rightarrow> basename (argv0 e) | Some s \<Rightarrow> s)"

definition expand_prog_name :: "parser \<Rightarrow> env \<Rightarrow> string \<Rightarrow> string" where
  "expand_prog_name p e s = str_replace ''%prog'' (get_prog_name p e) s"

definition get_usage :: "parser \<Rightarrow> env \<Rightarrow> py_error + string" where
  "get_usage p e =
     (case usage p of
        None \<Rightarrow> Inr []
      | Some u \<Rightarrow> if u = [] then Inr [] else format_usage (formatter p) (expand_prog_name p e u))"

text \<open>
  \<^verbatim>\<open>OptionParser.error(msg)\<close>: the usage message and the error line go to the error
  stream and the process exits with status 2. The result is the exception that leaves
  \<^verbatim>\<open>error\<close>.
\<close>

definition print_usage :: "parser \<Rightarrow> env \<Rightarrow> py_error + string" where
  "print_usage p e =
     (case usage p of
        None \<Rightarrow> Inr []
      | Some u \<Rightarrow> if u = [] then Inr [] else ebind (get_usage p e) (\<lambda>t. Inr (t @ [CHR 0x0A])))"

definition error :: "parser \<Rightarrow> env \<Rightarrow> string \<Rightarrow> py_error" where
  "error p e msg =
     (case print_usage p e of
        Inl err \<Rightarrow> err
      | Inr out \<Rightarrow> SystemExit 2 (out @ get_prog_name p e @ '': error: '' @ msg @ [CHR 0x0A]))"

text \<open>\<^verbatim>\<open>str(err)\<close> for the exceptions that \<^verbatim>\<open>parse_args\<close> catches.\<close>

definition err_str :: "py_error \<Rightarrow> string" where
  "err_str err =
     (case err of
        BadOptionError s \<Rightarrow> ''no such option: '' @ s
      | AmbiguousOptionError s ps \<Rightarrow> ''ambiguous option: '' @ s @ '' ('' @ join '', '' ps @ ''?)''
      | OptionValueError msg \<Rightarrow> msg
      | _ \<Rightarrow> [])"

text \<open>
  The tokens an option takes from \<open>rargs\<close>, shared by the long and the short path: fewer
  than \<open>nargs\<close> tokens is the usage error, one token is a scalar, otherwise a tuple.
\<close>

definition take_nargs ::
  "parser \<Rightarrow> env \<Rightarrow> string \<Rightarrow> option_t \<Rightarrow> bool \<Rightarrow> pstate \<Rightarrow> py_error + raw_value \<times> pstate" where
  "take_nargs p e opt opt_obj long_form st =
     (case nargs opt_obj of
        None \<Rightarrow> Inl (TypeError ''< not supported between instances of int and NoneType'')
      | Some n \<Rightarrow>
          if int (length (rargs st)) < n then
            Inl (error p e
                   (opt @ '' option requires '' @ str_int n @ '' argument'' @
                    (if long_form then (if n > 1 then ''s'' else [])
                     else (if n = 1 then [] else ''s''))))
          else if n = 1 then Inr (RStr (hd (rargs st)), st\<lparr>rargs := tl (rargs st)\<rparr>)
          else Inr (RTuple (slice_to (rargs st) n), st\<lparr>rargs := del_slice_to (rargs st) n\<rparr>))"

text \<open>
  \<^verbatim>\<open>OptionParser._process_long_opt\<close>; it is called with a non-empty \<open>rargs\<close>, and
  \<^verbatim>\<open>rargs.pop(0)\<close> on an empty list is the \<open>IndexError\<close>.
\<close>

definition process_long_opt :: "parser \<Rightarrow> env \<Rightarrow> pstate \<Rightarrow> py_error + pstate" where
  "process_long_opt p e st =
     (case rargs st of
        [] \<Rightarrow> Inl IndexError
      | arg # rest \<Rightarrow>
          let had_explicit_value = (CHR ''='' \<in> set arg);
              opt = (if had_explicit_value then fst (split_eq arg) else arg);
              st = (if had_explicit_value then st\<lparr>rargs := snd (split_eq arg) # rest\<rparr>
                    else st\<lparr>rargs := rest\<rparr>)
          in ebind (match_abbrev opt (long_opt p)) (\<lambda>opt.
               case map_of (long_opt p) opt of
                 None \<Rightarrow> Inl (KeyError (repr_str opt))
               | Some i \<Rightarrow>
                   if takes_value (heap p ! i) then
                     ebind (take_nargs p e opt (heap p ! i) True st) (\<lambda>(val, st).
                       process (heap p ! i) opt val st)
                   else if had_explicit_value then
                     Inl (error p e (opt @ '' option does not take a value''))
                   else process (heap p ! i) opt RNone st))"

text \<open>
  \<^verbatim>\<open>OptionParser._process_short_opts\<close>: \<open>short_opts_loop\<close> is the loop over the characters
  after the dash, with the counter \<open>i\<close> of the characters consumed so far.
\<close>

fun short_opts_loop ::
  "parser \<Rightarrow> env \<Rightarrow> string \<Rightarrow> string \<Rightarrow> nat \<Rightarrow> pstate \<Rightarrow> py_error + pstate" where
  "short_opts_loop p e arg [] i st = Inr st"
| "short_opts_loop p e arg (ch # chs) i st =
     (let opt = [CHR ''-'', ch]; i = i + 1
      in case map_of (short_opt p) opt of
           None \<Rightarrow> Inl (BadOptionError opt)
         | Some j \<Rightarrow>
             if takes_value (heap p ! j) then
               (let stop = (i < length arg);
                    st = (if stop then st\<lparr>rargs := drop i arg # rargs st\<rparr> else st)
                in ebind (take_nargs p e opt (heap p ! j) False st) (\<lambda>(val, st).
                   ebind (process (heap p ! j) opt val st) (\<lambda>st.
                     if stop then Inr st else short_opts_loop p e arg chs i st)))
             else
               ebind (process (heap p ! j) opt RNone st) (short_opts_loop p e arg chs i))"

definition process_short_opts :: "parser \<Rightarrow> env \<Rightarrow> pstate \<Rightarrow> py_error + pstate" where
  "process_short_opts p e st =
     (case rargs st of
        [] \<Rightarrow> Inl IndexError
      | arg # rest \<Rightarrow> short_opts_loop p e arg (drop 1 arg) 1 (st\<lparr>rargs := rest\<rparr>))"

text \<open>
  \<^verbatim>\<open>OptionParser._process_args\<close>. \<open>process_args_body\<close> is one pass through the body of the
  \<^verbatim>\<open>while\<close> loop, entered with a non-empty \<open>rargs\<close>: it raises, or returns the new state
  with the flag that tells whether the loop goes on (\<open>True\<close>) or the method returns
  (\<open>False\<close>). A callback may put tokens back on \<open>rargs\<close>, so the loop need not end: the
  result of \<open>process_args\<close> is \<open>None\<close> when it does not, \<open>Some (Inl err)\<close> when an exception
  leaves it, and \<open>Some (Inr st)\<close> when it returns.
\<close>

definition process_args_body :: "parser \<Rightarrow> env \<Rightarrow> pstate \<Rightarrow> py_error + bool \<times> pstate" where
  "process_args_body p e st =
     (case rargs st of
        [] \<Rightarrow> Inl IndexError
      | arg # rest \<Rightarrow>
          if arg = ''--'' then Inr (False, st\<lparr>rargs := rest\<rparr>)
          else if take 2 arg = ''--'' then
            ebind (process_long_opt p e st) (\<lambda>st'. Inr (True, st'))
          else if take 1 arg = ''-'' \<and> length arg > 1 then
            ebind (process_short_opts p e st) (\<lambda>st'. Inr (True, st'))
          else if allow_interspersed_args p then
            Inr (True, st\<lparr>largs := largs st @ [arg], rargs := rest\<rparr>)
          else Inr (False, st))"

partial_function (option) process_args ::
  "parser \<Rightarrow> env \<Rightarrow> pstate \<Rightarrow> (py_error + pstate) option" where
  "process_args p e st =
     (if rargs st = [] then Some (Inr st)
      else (case process_args_body p e st of
              Inl err \<Rightarrow> Some (Inl err)
            | Inr (go_on, st') \<Rightarrow> if go_on then process_args p e st' else Some (Inr st')))"

declare process_args.simps [code]

text \<open>
  \<open>loop_reaches p e st st'\<close>: the loop, started in the state \<open>st\<close>, is at the head of an
  iteration in the state \<open>st'\<close>.
\<close>

inductive loop_reaches :: "parser \<Rightarrow> env \<Rightarrow> pstate \<Rightarrow> pstate \<Rightarrow> bool" for p e where
  start: "loop_reaches p e st st"
| iteration: "rargs st \<noteq> [] \<Longrightarrow> process_args_body p e st = Inr (True, st') \<Longrightarrow>
     loop_reaches p e st' st'' \<Longrightarrow> loop_reaches p e st st''"

text \<open>\<^verbatim>\<open>OptionParser._get_all_options\<close> and \<^verbatim>\<open>OptionParser.get_default_values\<close>.\<close>

definition get_all_options :: "parser \<Rightarrow> nat list" where
  "get_all_options p =
     option_list p @ concat (map (\<lambda>g. group_option_list (groups p ! g)) (option_groups p))"

fun process_defaults ::
  "parser \<Rightarrow> nat list \<Rightarrow> (string \<times> pyval) list \<Rightarrow> py_error + (string \<times> pyval) list" where
  "process_defaults p [] d = Inr d"
| "process_defaults p (i # rest) d =
     (case (case dest (heap p ! i) of None \<Rightarrow> None | Some k \<Rightarrow> map_of d k) of
        Some (VStr s) \<Rightarrow>
          ebind (get_opt_string (heap p ! i)) (\<lambda>opt_str.
          ebind (check_value (heap p ! i) opt_str s) (\<lambda>v.
            process_defaults p rest
              (AList.update (case dest (heap p ! i) of None \<Rightarrow> [] | Some k \<Rightarrow> k) v d)))
      | _ \<Rightarrow> process_defaults p rest d)"

definition get_default_values :: "parser \<Rightarrow> py_error + (string \<times> pyval) list" where
  "get_default_values p =
     (if \<not> process_default_values p then Inr (defaults p)
      else process_defaults p (get_all_options p) (defaults p))"

text \<open>
  \<^verbatim>\<open>OptionParser.parse_args(args, values)\<close>: an absent or empty \<open>args\<close> is replaced by
  \<^verbatim>\<open>sys.argv[1:]\<close>, absent \<open>values\<close> by the default values, which are computed before
  the \<^verbatim>\<open>try\<close> block; inside it, a \<open>BadOptionError\<close> (with its subclass
  \<open>AmbiguousOptionError\<close>) or an \<open>OptionValueError\<close> is handed to \<^verbatim>\<open>error\<close>. The result is
  the pair of the values and \<^verbatim>\<open>largs + rargs\<close>.
\<close>

definition initial_rargs :: "env \<Rightarrow> string list option \<Rightarrow> string list" where
  "initial_rargs e args =
     (case args of None \<Rightarrow> argv_rest e | Some a \<Rightarrow> if a = [] then argv_rest e else a)"

definition parse_args ::
  "parser \<Rightarrow> env \<Rightarrow> string list option \<Rightarrow> (string \<times> pyval) list option \<Rightarrow>
   (py_error + (string \<times> pyval) list \<times> string list) option" where
  "parse_args p e args vals =
     (case (case vals of None \<Rightarrow> get_default_values p | Some v \<Rightarrow> Inr v) of
           Inl err \<Rightarrow> Some (Inl err)
         | Inr v \<Rightarrow>
             (case process_args p e \<lparr>rargs = initial_rargs e args, largs = [], values_dict = v\<rparr> of
                None \<Rightarrow> None
              | Some (Inl err) \<Rightarrow>
                  (case err of
                     BadOptionError s \<Rightarrow> Some (Inl (error p e (err_str err)))
                   | AmbiguousOptionError s ps \<Rightarrow> Some (Inl (error p e (err_str err)))
                   | OptionValueError msg \<Rightarrow> Some (Inl (error p e (err_str err)))
                   | _ \<Rightarrow> Some (Inl err))
              | Some (Inr st) \<Rightarrow> Some (Inr (values_dict st, largs st @ rargs st))))"

text \<open>\<^verbatim>\<open>enable_interspersed_args\<close> and \<^verbatim>\<open>disable_interspersed_args\<close>.\<close>

definition enable_interspersed_args :: "parser \<Rightarrow> parser" where
  "enable_interspersed_args p = p\<lparr>allow_interspersed_args := True\<rparr>"

definition disable_interspersed_args :: "parser \<Rightarrow> parser" where
  "disable_interspersed_args p = p\<lparr>allow_interspersed_args := False\<rparr>"

section \<open>The parsers of the concrete scenarios\<close>

text \<open>
  A parser built with the default arguments, to which \<^verbatim>\<open>-v/--verbose\<close>
  (\<^verbatim>\<open>store_true\<close>, destination \<^verbatim>\<open>verbose\<close>) and \<^verbatim>\<open>-o/--output\<close> (\<^verbatim>\<open>store\<close>, type
  \<^verbatim>\<open>string\<close>, destination \<^verbatim>\<open>output\<close>, \<^verbatim>\<open>nargs\<close> 1) are added.
\<close>

definition verbose_output_parser :: "py_error + parser" where
  "verbose_output_parser =
     ebind (OptionParser_init None None ''error'' None None True None None) (\<lambda>p.
     ebind (add_option_strs CParser [''-v'', ''--verbose'']
              (no_attrs\<lparr>action := Some ''store_true'', dest := Some ''verbose''\<rparr>) p) (\<lambda>(i, p).
     ebind (add_option_strs CParser [''-o'', ''--output'']
              (no_attrs\<lparr>action := Some ''store'', type_name := Some ''string'',
                 dest := Some ''output'', nargs := Some 1\<rparr>) p) (\<lambda>(i, p). Inr p)))"

text \<open>A parser with the options \<^verbatim>\<open>-a\<close> and \<^verbatim>\<open>-b\<close>, each taking one value.\<close>

definition a_b_parser :: "py_error + parser" where
  "a_b_parser =
     ebind (OptionParser_init None None ''error'' None None True None None) (\<lambda>p.
     ebind (add_option_strs CParser [''-a''] no_attrs p) (\<lambda>(i, p).
     ebind (add_option_strs CParser [''-b''] no_attrs p) (\<lambda>(i, p). Inr p)))"

text \<open>
  A parser with the option \<^verbatim>\<open>-n\<close> of type \<^verbatim>\<open>int\<close>, and the same parser where the option
  is declared with the string default \<^verbatim>\<open>"abc"\<close>.
\<close>

definition int_parser :: "py_error + parser" where
  "int_parser =
     ebind (OptionParser_init None None ''error'' None None True None None) (\<lambda>p.
     ebind (add_option_strs CParser [''-n''] (no_attrs\<lparr>type_name := Some ''int''\<rparr>) p)
       (\<lambda>(i, p). Inr p))"

definition bad_default_parser :: "py_error + parser" where
  "bad_default_parser =
     ebind (OptionParser_init None None ''error'' None None True None None) (\<lambda>p.
     ebind (add_option_strs CParser [''-n'']
              (no_attrs\<lparr>type_name := Some ''int'', default_value := Some (VStr ''abc'')\<rparr>) p)
       (\<lambda>(i, p). Inr p))"

section \<open>Properties\<close>

text \<open>
  C2. Abbreviation resolution. For every candidate \<open>s\<close> and every table (a dictionary, so
  its keys are pairwise distinct): the resolver returns \<open>s\<close> itself when \<open>s\<close> is a key;
  otherwise, with \<open>P\<close> the set of keys that have \<open>s\<close> as a prefix, it fails with
  \<open>BadOptionError s\<close> when \<open>P\<close> is empty, returns the unique element when \<open>P\<close> has one
  element, and fails with \<open>AmbiguousOptionError\<close> carrying the elements of \<open>P\<close> in
  sorted order otherwise. The result is a function of \<open>s\<close> and the table alone.
\<close>

theorem match_abbrev_spec:
  assumes "distinct (map fst wordmap)"
  shows "match_abbrev s wordmap =
     (let K = set (map fst wordmap); P = {w \<in> K. prefix s w} in
      if s \<in> K then Inr s
      else if P = {} then Inl (BadOptionError s)
      else if card P = 1 then Inr (the_elem P)
      else Inl (AmbiguousOptionError s (sorted_list_of_set P)))"
proof -
  define ps where "ps = filter (\<lambda>word. prefix s word) (map fst wordmap)"
  have d: "distinct ps" using assms by (simp add: ps_def)
  have s: "set ps = {w \<in> set (map fst wordmap). prefix s w}" by (auto simp: ps_def)
  have c: "card (set ps) = length ps" using d by (simp add: distinct_card)
  have srt: "sorted_list_of_set (set ps) = sort ps"
    using d by (simp add: sorted_list_of_set_sort_remdups distinct_remdups_id)
  have one: "length ps = 1 \<Longrightarrow> the_elem (set ps) = hd ps"
    by (cases ps) (auto simp: the_elem_def)
  show ?thesis
    unfolding match_abbrev_def Let_def ps_def[symmetric] s[symmetric]
    using c srt one by auto
qed

theorem match_abbrev_spec_witness:
  "distinct (map fst [(''--version'', 1::nat), (''--verbose'', 2), (''--output'', 3)]) \<and>
   Inl (AmbiguousOptionError ''--ver'' [''--verbose'', ''--version'']) =
     (let K = set (map fst [(''--version'', 1::nat), (''--verbose'', 2), (''--output'', 3)]);
          P = {w \<in> K. prefix ''--ver'' w} in
      if ''--ver'' \<in> K then Inr ''--ver''
      else if P = {} then Inl (BadOptionError ''--ver'')
      else if card P = 1 then Inr (the_elem P)
      else Inl (AmbiguousOptionError ''--ver'' (sorted_list_of_set P)))"
proof -
  have d: "distinct (map fst [(''--version'', 1::nat), (''--verbose'', 2), (''--output'', 3)])"
    by simp
  have e: "match_abbrev ''--ver'' [(''--version'', 1::nat), (''--verbose'', 2), (''--output'', 3)]
      = Inl (AmbiguousOptionError ''--ver'' [''--verbose'', ''--version''])"
    by (simp add: match_abbrev_def)
  have th: "match_abbrev ''--ver'' [(''--version'', 1::nat), (''--verbose'', 2), (''--output'', 3)]
      = (let K = set (map fst [(''--version'', 1::nat), (''--verbose'', 2), (''--output'', 3)]);
          P = {w \<in> K. prefix ''--ver'' w} in
      if ''--ver'' \<in> K then Inr ''--ver''
      else if P = {} then Inl (BadOptionError ''--ver'')
      else if card P = 1 then Inr (the_elem P)
      else Inl (AmbiguousOptionError ''--ver'' (sorted_list_of_set P)))"
    by (rule match_abbrev_spec [OF d])
  show ?thesis by (rule conjI [OF d th [unfolded e]])
qed

text \<open>
  C1. With \<^verbatim>\<open>-v/--verbose\<close> and \<^verbatim>\<open>-o/--output\<close> registered, \<^verbatim>\<open>parse_args\<close> on
  \<^verbatim>\<open>["-v", "--output=report.txt", "extra"]\<close> returns the values \<^verbatim>\<open>verbose = True\<close>,
  \<^verbatim>\<open>output = "report.txt"\<close> and the leftover list \<^verbatim>\<open>["extra"]\<close>, and on
  \<^verbatim>\<open>["-vo", "report.txt", "extra"]\<close> it returns the same values and leftover list. This
  holds whatever the program name and the arguments of the process are.
\<close>

theorem parse_args_verbose_output:
  "(case verbose_output_parser of
      Inl err \<Rightarrow> False
    | Inr p \<Rightarrow>
        parse_args p e (Some [''-v'', ''--output=report.txt'', ''extra'']) None =
          Some (Inr ([(''verbose'', VBool True), (''output'', VStr ''report.txt'')], [''extra''])) \<and>
        parse_args p e (Some [''-vo'', ''report.txt'', ''extra'']) None =
          Some (Inr ([(''verbose'', VBool True), (''output'', VStr ''report.txt'')], [''extra''])))"
  by code_simp

text \<open>
  C4. With \<^verbatim>\<open>-a\<close> and \<^verbatim>\<open>-b\<close> each taking one value, the tokens
  \<^verbatim>\<open>["-a", "x", "pos1", "-b", "y", "pos2"]\<close> leave \<^verbatim>\<open>["pos1", "pos2"]\<close> when interspersed
  arguments are enabled (the default), and \<^verbatim>\<open>["pos1", "-b", "y", "pos2"]\<close> when they are
  disabled: the loop stops at \<^verbatim>\<open>pos1\<close>, and the option \<^verbatim>\<open>-b\<close> is not processed.
\<close>

theorem parse_args_interspersed:
  "(case a_b_parser of
      Inl err \<Rightarrow> False
    | Inr p \<Rightarrow>
        allow_interspersed_args p \<and>
        parse_args p e (Some [''-a'', ''x'', ''pos1'', ''-b'', ''y'', ''pos2'']) None =
          Some (Inr ([(''a'', VStr ''x''), (''b'', VStr ''y'')], [''pos1'', ''pos2''])) \<and>
        parse_args (enable_interspersed_args p) e
            (Some [''-a'', ''x'', ''pos1'', ''-b'', ''y'', ''pos2'']) None =
          Some (Inr ([(''a'', VStr ''x''), (''b'', VStr ''y'')], [''pos1'', ''pos2''])) \<and>
        parse_args (disable_interspersed_args p) e
            (Some [''-a'', ''x'', ''pos1'', ''-b'', ''y'', ''pos2'']) None =
          Some (Inr ([(''a'', VStr ''x''), (''b'', VNone)], [''pos1'', ''-b'', ''y'', ''pos2''])))"
  by code_simp


subsection \<open>The processing loop\<close>

lemma loop_reaches_process_args:
  "loop_reaches p e st st' \<Longrightarrow> process_args p e st = process_args p e st'"
proof (induction rule: loop_reaches.induct)
  case (start st)
  show ?case by simp
next
  case (iteration st st' st'')
  have "process_args p e st = process_args p e st'"
    using iteration.hyps(1,2) by (subst process_args.simps) simp
  with iteration.IH show ?case by simp
qed

lemma process_args_double_dash:
  "rargs st = ''--'' # suf \<Longrightarrow> process_args p e st = Some (Inr (st\<lparr>rargs := suf\<rparr>))"
  by (subst process_args.simps) (simp add: process_args_body_def)

text \<open>
  C3. The separator \<^verbatim>\<open>--\<close>. Let the token vector be \<open>pre @ ''--'' # suf\<close>, let the values be
  those passed in or the default values, and let the loop reach an iteration whose
  remaining list is \<open>''--'' # suf\<close>. Then this iteration removes \<^verbatim>\<open>--\<close> and ends the loop
  with the values and the collected leftover tokens as they were, and \<^verbatim>\<open>parse_args\<close>
  returns these values and the leftover list that ends with \<open>suf\<close>, whatever the tokens of
  \<open>suf\<close> look like.
\<close>

theorem double_dash_stops:
  assumes form: "args = pre @ ''--'' # suf"
      and vals: "(case vals of None \<Rightarrow> get_default_values p | Some v' \<Rightarrow> Inr v') = Inr v"
      and reach: "loop_reaches p e \<lparr>rargs = args, largs = [], values_dict = v\<rparr> st"
      and head: "rargs st = ''--'' # suf"
  shows "process_args_body p e st = Inr (False, st\<lparr>rargs := suf\<rparr>) \<and>
         process_args p e st = Some (Inr (st\<lparr>rargs := suf\<rparr>)) \<and>
         parse_args p e (Some args) vals = Some (Inr (values_dict st, largs st @ suf))"
proof -
  have b: "process_args_body p e st = Inr (False, st\<lparr>rargs := suf\<rparr>)"
    using head by (simp add: process_args_body_def)
  have a: "process_args p e st = Some (Inr (st\<lparr>rargs := suf\<rparr>))"
    using head by (rule process_args_double_dash)
  have ne: "args \<noteq> []" using form by simp
  have "process_args p e \<lparr>rargs = args, largs = [], values_dict = v\<rparr> =
      Some (Inr (st\<lparr>rargs := suf\<rparr>))"
    using loop_reaches_process_args [OF reach] a by simp
  then have "parse_args p e (Some args) vals = Some (Inr (values_dict st, largs st @ suf))"
    using vals ne by (simp add: parse_args_def initial_rargs_def)
  with a b show ?thesis by simp
qed

theorem double_dash_stops_witness:
  "[''-v'', ''pos'', ''--'', ''-o'', ''--verbose''] = [''-v'', ''pos''] @ ''--'' # [''-o'', ''--verbose''] \<and>
   (case None of None \<Rightarrow> get_default_values (projr verbose_output_parser) | Some v' \<Rightarrow> Inr v') =
     Inr [(''verbose'', VNone), (''output'', VNone)] \<and>
   loop_reaches (projr verbose_output_parser) \<lparr>argv0 = ''prog'', argv_rest = []\<rparr>
     \<lparr>rargs = [''-v'', ''pos'', ''--'', ''-o'', ''--verbose''], largs = [],
        values_dict = [(''verbose'', VNone), (''output'', VNone)]\<rparr>
     \<lparr>rargs = [''--'', ''-o'', ''--verbose''], largs = [''pos''],
        values_dict = [(''verbose'', VBool True), (''output'', VNone)]\<rparr> \<and>
   parse_args (projr verbose_output_parser) \<lparr>argv0 = ''prog'', argv_rest = []\<rparr>
       (Some [''-v'', ''pos'', ''--'', ''-o'', ''--verbose'']) None =
     Some (Inr ([(''verbose'', VBool True), (''output'', VNone)], [''pos'', ''-o'', ''--verbose'']))"
proof -
  let ?p = "projr verbose_output_parser"
  let ?e = "\<lparr>argv0 = ''prog'', argv_rest = []\<rparr>"
  let ?s0 = "\<lparr>rargs = [''-v'', ''pos'', ''--'', ''-o'', ''--verbose''], largs = [],
        values_dict = [(''verbose'', VNone), (''output'', VNone)]\<rparr>"
  let ?s1 = "\<lparr>rargs = [''pos'', ''--'', ''-o'', ''--verbose''], largs = [],
        values_dict = [(''verbose'', VBool True), (''output'', VNone)]\<rparr>"
  let ?s2 = "\<lparr>rargs = [''--'', ''-o'', ''--verbose''], largs = [''pos''],
        values_dict = [(''verbose'', VBool True), (''output'', VNone)]\<rparr>"
  have form: "[''-v'', ''pos'', ''--'', ''-o'', ''--verbose''] =
      [''-v'', ''pos''] @ ''--'' # [''-o'', ''--verbose'']"
    by simp
  have vals: "(case None of None \<Rightarrow> get_default_values ?p | Some v' \<Rightarrow> Inr v') =
      Inr [(''verbose'', VNone), (''output'', VNone)]"
    by code_simp
  have b0: "process_args_body ?p ?e ?s0 = Inr (True, ?s1)" by code_simp
  have b1: "process_args_body ?p ?e ?s1 = Inr (True, ?s2)" by code_simp
  have reach: "loop_reaches ?p ?e ?s0 ?s2"
    by (rule loop_reaches.iteration [OF _ b0 loop_reaches.iteration [OF _ b1 loop_reaches.start]])
      simp_all
  have head: "rargs ?s2 = ''--'' # [''-o'', ''--verbose'']" by simp
  have "parse_args ?p ?e (Some [''-v'', ''pos'', ''--'', ''-o'', ''--verbose'']) None =
      Some (Inr (values_dict ?s2, largs ?s2 @ [''-o'', ''--verbose'']))"
    by (rule conjunct2 [OF conjunct2 [OF double_dash_stops [OF form vals reach head]]])
  then have res: "parse_args ?p ?e (Some [''-v'', ''pos'', ''--'', ''-o'', ''--verbose'']) None =
      Some (Inr ([(''verbose'', VBool True), (''output'', VNone)], [''pos'', ''-o'', ''--verbose'']))"
    by simp
  show ?thesis by (intro conjI form vals reach res)
qed

subsection \<open>Errors inside and outside the try block\<close>

lemma format_heading_error: "format_heading f h = Inl err \<Longrightarrow> err = IndexError"
  by (auto simp: format_heading_def split: formatter_class.splits if_splits)

lemma format_usage_error: "format_usage f u = Inl err \<Longrightarrow> err = IndexError"
  by (auto simp: format_usage_def ebind_def split: formatter_class.splits sum.splits
      dest: format_heading_error)

lemma print_usage_error: "print_usage p e = Inl err \<Longrightarrow> err = IndexError"
  by (auto simp: print_usage_def get_usage_def ebind_def split: option.splits if_splits sum.splits
      dest: format_usage_error)

lemma error_cases:
  "error p e msg = IndexError \<or>
   (\<exists>out. print_usage p e = Inr out \<and>
      error p e msg = SystemExit 2 (out @ get_prog_name p e @ '': error: '' @ msg @ [CHR 0x0A]))"
  by (auto simp: error_def split: sum.splits dest: print_usage_error)

lemma error_not_value_error: "error p e msg \<noteq> OptionValueError m"
  using error_cases [of p e msg] by auto

text \<open>
  C7 (as the code has it). An \<open>OptionValueError\<close> that leaves the processing of the
  argument vector is caught in \<^verbatim>\<open>parse_args\<close> and handed to \<^verbatim>\<open>error\<close>, which, when the usage
  text can be rendered, ends the process with status 2 after writing the usage text and
  the message to the error stream. The caller of \<^verbatim>\<open>parse_args\<close> sees an \<open>OptionValueError\<close>
  in one case only: no values were passed in and the conversion of a string default in
  \<^verbatim>\<open>get_default_values\<close>, which runs before the \<^verbatim>\<open>try\<close> block, raised it.
\<close>

theorem option_value_error_containment:
  "(\<forall>v msg. (case vals of None \<Rightarrow> get_default_values p | Some v' \<Rightarrow> Inr v') = Inr v \<longrightarrow>
      process_args p e \<lparr>rargs = initial_rargs e args, largs = [], values_dict = v\<rparr> =
        Some (Inl (OptionValueError msg)) \<longrightarrow>
      parse_args p e args vals = Some (Inl (error p e msg))) \<and>
   (\<forall>msg out. print_usage p e = Inr out \<longrightarrow>
      error p e msg = SystemExit 2 (out @ get_prog_name p e @ '': error: '' @ msg @ [CHR 0x0A])) \<and>
   (\<forall>m. parse_args p e args vals = Some (Inl (OptionValueError m)) \<longleftrightarrow>
      vals = None \<and> get_default_values p = Inl (OptionValueError m))"
proof (intro conjI allI impI)
  fix v msg
  assume "(case vals of None \<Rightarrow> get_default_values p | Some v' \<Rightarrow> Inr v') = Inr v"
    and "process_args p e \<lparr>rargs = initial_rargs e args, largs = [], values_dict = v\<rparr> =
        Some (Inl (OptionValueError msg))"
  then show "parse_args p e args vals = Some (Inl (error p e msg))"
    by (simp add: parse_args_def err_str_def)
next
  fix msg out
  assume "print_usage p e = Inr out"
  then show "error p e msg = SystemExit 2 (out @ get_prog_name p e @ '': error: '' @ msg @ [CHR 0x0A])"
    by (simp add: error_def)
next
  fix m
  show "parse_args p e args vals = Some (Inl (OptionValueError m)) \<longleftrightarrow>
      vals = None \<and> get_default_values p = Inl (OptionValueError m)"
  proof (cases "(case vals of None \<Rightarrow> get_default_values p | Some v' \<Rightarrow> Inr v')")
    case (Inl err)
    then show ?thesis
      by (auto simp: parse_args_def split: option.splits)
  next
    case (Inr v)
    have ne: "\<not> (vals = None \<and> get_default_values p = Inl (OptionValueError m))"
      using Inr by (auto split: option.splits)
    have "parse_args p e args vals \<noteq> Some (Inl (OptionValueError m))"
      using Inr error_not_value_error [of p e]
      by (auto simp: parse_args_def split: option.splits sum.splits py_error.splits)
    with ne show ?thesis by simp
  qed
qed

theorem option_value_error_containment_witness:
  "(case None of None \<Rightarrow> get_default_values (projr int_parser) | Some v' \<Rightarrow> Inr v') =
     Inr [(''n'', VNone)] \<and>
   process_args (projr int_parser) \<lparr>argv0 = ''prog'', argv_rest = []\<rparr>
     \<lparr>rargs = initial_rargs \<lparr>argv0 = ''prog'', argv_rest = []\<rparr> (Some [''-n'', ''abc'']),
        largs = [], values_dict = [(''n'', VNone)]\<rparr> =
     Some (Inl (OptionValueError
       (''option -n: invalid integer value: '' @ [CHR 0x27] @ ''abc'' @ [CHR 0x27]))) \<and>
   print_usage (projr int_parser) \<lparr>argv0 = ''prog'', argv_rest = []\<rparr> =
     Inr (''Usage'' @ [CHR 0x0A] @ ''====='' @ [CHR 0x0A] @ ''  prog [options]'' @ [CHR 0x0A, CHR 0x0A]) \<and>
   parse_args (projr int_parser) \<lparr>argv0 = ''prog'', argv_rest = []\<rparr> (Some [''-n'', ''abc'']) None =
     Some (Inl (SystemExit 2
       ((''Usage'' @ [CHR 0x0A] @ ''====='' @ [CHR 0x0A] @ ''  prog [options]'' @ [CHR 0x0A, CHR 0x0A]) @
        get_prog_name (projr int_parser) \<lparr>argv0 = ''prog'', argv_rest = []\<rparr> @ '': error: '' @
        (''option -n: invalid integer value: '' @ [CHR 0x27] @ ''abc'' @ [CHR 0x27]) @ [CHR 0x0A])))"
proof -
  let ?p = "projr int_parser"
  let ?e = "\<lparr>argv0 = ''prog'', argv_rest = []\<rparr>"
  let ?m = "''option -n: invalid integer value: '' @ [CHR 0x27] @ ''abc'' @ [CHR 0x27]"
  let ?u = "''Usage'' @ [CHR 0x0A] @ ''====='' @ [CHR 0x0A] @ ''  prog [options]'' @ [CHR 0x0A, CHR 0x0A]"
  have vals: "(case None of None \<Rightarrow> get_default_values ?p | Some v' \<Rightarrow> Inr v') =
      Inr [(''n'', VNone)]"
    by code_simp
  have pa: "process_args ?p ?e
      \<lparr>rargs = initial_rargs ?e (Some [''-n'', ''abc'']), largs = [], values_dict = [(''n'', VNone)]\<rparr> =
      Some (Inl (OptionValueError ?m))"
    by code_simp
  have pu: "print_usage ?p ?e = Inr ?u"
    by code_simp
  note th = option_value_error_containment [of ?p None ?e "Some [''-n'', ''abc'']"]
  have r1: "parse_args ?p ?e (Some [''-n'', ''abc'']) None = Some (Inl (error ?p ?e ?m))"
    by (rule conjunct1 [OF th, rule_format, OF vals pa])
  have r2: "error ?p ?e ?m = SystemExit 2 (?u @ get_prog_name ?p ?e @ '': error: '' @ ?m @ [CHR 0x0A])"
    by (rule conjunct1 [OF conjunct2 [OF th], rule_format, OF pu])
  have r3: "parse_args ?p ?e (Some [''-n'', ''abc'']) None =
      Some (Inl (SystemExit 2 (?u @ get_prog_name ?p ?e @ '': error: '' @ ?m @ [CHR 0x0A])))"
    by (rule r1 [unfolded r2])
  show ?thesis by (intro conjI vals pa pu r3)
qed

text \<open>
  The claim as stated fails for a string default that does not convert: the option \<^verbatim>\<open>-n\<close>
  of type \<^verbatim>\<open>int\<close> with the default \<^verbatim>\<open>"abc"\<close> makes \<^verbatim>\<open>parse_args(["x"])\<close> raise the
  \<open>OptionValueError\<close> itself.
\<close>

theorem string_default_error_propagates:
  "parse_args (projr bad_default_parser) \<lparr>argv0 = ''prog'', argv_rest = []\<rparr> (Some [''x'']) None =
     Some (Inl (OptionValueError
       (''option -n: invalid integer value: '' @ [CHR 0x27] @ ''abc'' @ [CHR 0x27])))"
  by code_simp


end
